theory Spec2Isabelle
  imports Main "HOL-Library.Sublist"
begin

section \<open>Python values used by the add-ons\<close>

text \<open>
  Python strings are modelled as \<^typ>\<open>string\<close>; a \<^typ>\<open>char\<close> stands for a code point
  below 256. An exception (any subclass of \<open>Exception\<close>) is modelled by its message
  \<open>str(e)\<close>; a call of the operating system or of a library that may raise returns
  \<open>exn + 'a\<close>, with \<open>Inl\<close> for the raise.
\<close>

type_synonym exn = string

text \<open>\<open>str.isspace\<close> on one character, for code points below 256.\<close>

definition py_isspace :: "char \<Rightarrow> bool" where
  "py_isspace c = (of_char c \<in> {9, 10, 11, 12, 13, 28, 29, 30, 31, 32, 133, 160 :: nat})"

text \<open>\<open>s.strip()\<close>: leading and trailing whitespace removed.\<close>

definition py_strip :: "string \<Rightarrow> string" where
  "py_strip s = rev (dropWhile py_isspace (rev (dropWhile py_isspace s)))"

text \<open>\<open>sep.join(xs)\<close>.\<close>

fun py_join :: "string \<Rightarrow> string list \<Rightarrow> string" where
  "py_join sep [] = []"
| "py_join sep [x] = x"
| "py_join sep (x # y # ys) = x @ sep @ py_join sep (y # ys)"

text \<open>\<open>a or b\<close> on strings: \<open>a\<close> when it is non-empty, else \<open>b\<close>.\<close>

definition py_or :: "string \<Rightarrow> string \<Rightarrow> string" where
  "py_or a b = (if a \<noteq> [] then a else b)"

text \<open>\<open>os.path.join(a, b)\<close> of \<open>posixpath\<close>, for two components.\<close>

definition os_path_join :: "string \<Rightarrow> string \<Rightarrow> string" where
  "os_path_join a b =
     (if prefix ''/'' b then b
      else if a = [] \<or> suffix ''/'' a then a @ b
      else a @ ''/'' @ b)"

text \<open>\<open>str(b)\<close> of a bool, as an f-string prints it.\<close>

definition py_str_bool :: "bool \<Rightarrow> string" where
  "py_str_bool b = (if b then ''True'' else ''False'')"

text \<open>The \<open>CompletedProcess\<close> that \<open>subprocess.run(..., capture_output=True, text=True)\<close> returns.\<close>

record completed =
  returncode :: int
  stdout :: string
  stderr :: string

text \<open>
  What \<open>json.loads\<close> returns: \<open>None\<close>, a bool, an int, a float, a string, a list or a
  dict. A finite float is \<open>m * 2 ^ e\<close>. A dict is kept as an association list, looked up
  with \<^const>\<open>map_of\<close>.
\<close>

datatype pyfloat = Finite int int | Infinite bool | NaN

datatype json =
    JNull
  | JBool bool
  | JInt int
  | JFloat pyfloat
  | JStr string
  | JArr "json list"
  | JObj "(string \<times> json) list"

section \<open>Effects\<close>

text \<open>
  Every call that leaves the add-on is an event of the trace a function returns, in
  program order. What the outside answers (an exit code, a raise, the abort flag) is an
  argument of the function: its observation.
\<close>

datatype level = LOGDEBUG | LOGINFO | LOGWARNING | LOGERROR

datatype icon = NOTIFICATION_INFO | NOTIFICATION_ERROR

type_synonym pid = nat

datatype event =
    Log level string
  | Run "string list" "nat option"
  | RunShell string
  | Popen "string list" string
  | Poll pid
  | Terminate pid
  | Wait pid nat
  | Kill pid
  | Sleep nat
  | Notification string string icon nat
  | AbortRequested
  | WaitForAbort nat
  | PathExists string
  | Remove string
  | OpenWrite string
  | WriteFile string string
  | Chmod string nat
  | DumpJson string json nat

section \<open>The Tailscale service add-on (archive/libreelec-tailscale-addon/source/default.py)\<close>

text \<open>
  The attributes of \<open>TailscaleService\<close> that the methods read, and the one they write:
  \<open>tailscaled_process\<close>, \<open>None\<close> until \<open>start_tailscaled\<close> has spawned a child.
\<close>

record service =
  addon_data :: string
  tailscaled_bin :: string
  tailscale_bin :: string
  state_dir :: string
  tailscaled_process :: "pid option"

text \<open>\<open>self.addon.getSetting(id)\<close>: the settings store, a string for every id.\<close>

type_synonym settings = "string \<Rightarrow> string"

subsection \<open>is_tailscaled_running\<close>

definition pgrep_cmd :: "string list" where
  "pgrep_cmd = [''pgrep'', ''-f'', ''tailscaled'']"

text \<open>
  \<open>return result.returncode == 0\<close>, and \<open>False\<close> when \<open>subprocess.run\<close> raises (the bare
  \<open>except\<close>).
\<close>

definition is_tailscaled_running :: "exn + completed \<Rightarrow> event list \<times> bool" where
  "is_tailscaled_running pgrep =
     ([Run pgrep_cmd None],
      (case pgrep of Inl e \<Rightarrow> False | Inr r \<Rightarrow> returncode r = 0))"

subsection \<open>start_tailscaled\<close>

text \<open>
  The last argument is \<open>'--port=' + self.addon.getSetting('daemon_port') or '41641'\<close>;
  \<open>+\<close> binds tighter than \<open>or\<close>.
\<close>

definition tailscaled_cmd :: "service \<Rightarrow> settings \<Rightarrow> string list" where
  "tailscaled_cmd svc st =
     [tailscaled_bin svc,
      ''--state='' @ os_path_join (state_dir svc) ''tailscaled.state'',
      ''--socket='' @ os_path_join (state_dir svc) ''tailscaled.sock'',
      py_or (''--port='' @ st ''daemon_port'') ''41641'']"

text \<open>
  What \<open>start_tailscaled\<close> observes: the \<open>pgrep\<close> of its own liveness check, whether
  \<open>Popen\<close> raises or gives a child, and \<open>poll()\<close> after the two seconds (\<open>None\<close>: the
  child still runs).
\<close>

record start_obs =
  start_pgrep :: "exn + completed"
  start_popen :: "exn + pid"
  start_poll :: "int option"

text \<open>The \<open>try\<close> block: trace, the service after it, and the raise or the value returned.\<close>

definition start_tailscaled_try ::
  "service \<Rightarrow> settings \<Rightarrow> start_obs \<Rightarrow> event list \<times> service \<times> (exn + bool)" where
  "start_tailscaled_try svc st ob =
     (case is_tailscaled_running (start_pgrep ob) of (e1, running) \<Rightarrow>
        if running then
          (e1 @ [Log LOGINFO ''[Tailscale] tailscaled already running''], svc, Inr True)
        else
          let cmd = tailscaled_cmd svc st;
              e2 = e1 @ [Log LOGDEBUG (''[Tailscale] Starting tailscaled: '' @ py_join '' '' cmd),
                         Popen cmd (addon_data svc)]
          in (case start_popen ob of
                Inl e \<Rightarrow> (e2, svc, Inl e)
              | Inr p \<Rightarrow>
                  let svc' = svc\<lparr>tailscaled_process := Some p\<rparr>;
                      e3 = e2 @ [Sleep 2, Poll p]
                  in if start_poll ob = None then
                       (e3 @ [Log LOGINFO ''[Tailscale] tailscaled started successfully''],
                        svc', Inr True)
                     else
                       (e3 @ [Log LOGERROR ''[Tailscale] tailscaled failed to start''],
                        svc', Inr False)))"

text \<open>\<open>except Exception as e\<close>: log the error, return \<open>False\<close>.\<close>

definition start_tailscaled ::
  "service \<Rightarrow> settings \<Rightarrow> start_obs \<Rightarrow> event list \<times> service \<times> bool" where
  "start_tailscaled svc st ob =
     (case start_tailscaled_try svc st ob of
        (evs, svc', Inl e) \<Rightarrow>
          (evs @ [Log LOGERROR (''[Tailscale] Error starting tailscaled: '' @ e)], svc', False)
      | (evs, svc', Inr b) \<Rightarrow> (evs, svc', b))"

subsection \<open>The parsed status\<close>

text \<open>Truth value of a Python object, as \<open>not status\<close> tests it.\<close>

fun py_truthy :: "json \<Rightarrow> bool" where
  "py_truthy JNull = False"
| "py_truthy (JBool b) = b"
| "py_truthy (JInt i) = (i \<noteq> 0)"
| "py_truthy (JFloat (Finite m e)) = (m \<noteq> 0)"
| "py_truthy (JFloat (Infinite s)) = True"
| "py_truthy (JFloat NaN) = True"
| "py_truthy (JStr s) = (s \<noteq> [])"
| "py_truthy (JArr xs) = (xs \<noteq> [])"
| "py_truthy (JObj kvs) = (kvs \<noteq> [])"

text \<open>
  \<open>status.get(key)\<close>: the value or \<open>None\<close> on a dict, \<open>AttributeError\<close> on anything
  else.
\<close>

definition attribute_error :: "string \<Rightarrow> string \<Rightarrow> exn" where
  "attribute_error ty name =
     [CHR 0x27] @ ty @ [CHR 0x27] @ '' object has no attribute '' @ [CHR 0x27] @ name @ [CHR 0x27]"

fun py_get :: "json \<Rightarrow> string \<Rightarrow> exn + json" where
  "py_get (JObj kvs) k = Inr (case map_of kvs k of None \<Rightarrow> JNull | Some v \<Rightarrow> v)"
| "py_get JNull k = Inl (attribute_error ''NoneType'' ''get'')"
| "py_get (JBool b) k = Inl (attribute_error ''bool'' ''get'')"
| "py_get (JInt i) k = Inl (attribute_error ''int'' ''get'')"
| "py_get (JFloat f) k = Inl (attribute_error ''float'' ''get'')"
| "py_get (JStr s) k = Inl (attribute_error ''str'' ''get'')"
| "py_get (JArr xs) k = Inl (attribute_error ''list'' ''get'')"

text \<open>
  \<open>json.loads\<close> is the standard library's; the model takes it as a parameter: the parsed
  value, or the message of the \<open>JSONDecodeError\<close> it raises on malformed text.
\<close>

type_synonym loads = "string \<Rightarrow> exn + json"

subsection \<open>get_tailscale_status\<close>

definition socket_arg :: "service \<Rightarrow> string" where
  "socket_arg svc = ''--socket='' @ os_path_join (state_dir svc) ''tailscaled.sock''"

definition status_cmd :: "service \<Rightarrow> string list" where
  "status_cmd svc = [tailscale_bin svc, socket_arg svc, ''status'', ''--json'']"

text \<open>
  The \<open>try\<close> block: \<open>subprocess.run\<close> with a timeout of 10 seconds may raise; on exit code
  0 the output is parsed, which may raise; any other exit code returns \<open>None\<close>.
\<close>

definition get_tailscale_status_try ::
  "service \<Rightarrow> loads \<Rightarrow> exn + completed \<Rightarrow> event list \<times> (exn + json)" where
  "get_tailscale_status_try svc loads ob =
     ([Run (status_cmd svc) (Some 10)],
      (case ob of
         Inl e \<Rightarrow> Inl e
       | Inr r \<Rightarrow> if returncode r = 0 then loads (stdout r) else Inr JNull))"

text \<open>\<open>except Exception as e\<close>: log at debug level, return \<open>None\<close>.\<close>

definition get_tailscale_status ::
  "service \<Rightarrow> loads \<Rightarrow> exn + completed \<Rightarrow> event list \<times> (exn + json)" where
  "get_tailscale_status svc loads ob =
     (case get_tailscale_status_try svc loads ob of
        (evs, Inl e) \<Rightarrow>
          (evs @ [Log LOGDEBUG (''[Tailscale] Error getting status: '' @ e)], Inr JNull)
      | (evs, Inr j) \<Rightarrow> (evs, Inr j))"

subsection \<open>Notifications\<close>

text \<open>
  \<open>show_notification\<close> swallows whatever the dialog raises, so the call is its only
  effect.
\<close>

definition show_notification :: "string \<Rightarrow> string \<Rightarrow> nat \<Rightarrow> event list" where
  "show_notification title message time = [Notification title message NOTIFICATION_INFO time]"

definition show_auth_notification :: "event list" where
  "show_auth_notification =
     show_notification ''Tailscale Authentication Required''
       ''Please run 'tailscale up' manually or check addon settings'' 10000"

subsection \<open>login\<close>

text \<open>The command line \<open>login\<close> builds from the settings.\<close>

definition login_cmd :: "service \<Rightarrow> settings \<Rightarrow> string list" where
  "login_cmd svc st =
     [tailscale_bin svc, socket_arg svc, ''up'']
     @ (if st ''auth_key'' \<noteq> [] \<and> py_strip (st ''auth_key'') \<noteq> []
        then [''--authkey'', py_strip (st ''auth_key'')] else [])
     @ (if st ''accept_routes'' = ''true'' then [''--accept-routes''] else [])
     @ (if st ''accept_dns'' = ''true'' then [''--accept-dns''] else [])
     @ (if st ''hostname'' \<noteq> [] then [''--hostname'', st ''hostname''] else [])"

text \<open>
  The command as the debug log prints it:
  \<open>' '.join([c for c in cmd if not c.startswith('tskey-')])\<close>.
\<close>

definition login_logged_cmd :: "string list \<Rightarrow> string" where
  "login_logged_cmd cmd = py_join '' '' (filter (\<lambda>c. \<not> prefix ''tskey-'' c) cmd)"

definition login_try :: "service \<Rightarrow> settings \<Rightarrow> exn + completed \<Rightarrow> event list \<times> (exn + bool)" where
  "login_try svc st ob =
     (let cmd = login_cmd svc st;
          e1 = (if st ''auth_key'' \<noteq> [] \<and> py_strip (st ''auth_key'') \<noteq> []
                then [Log LOGINFO ''[Tailscale] Using auth key for authentication''] else [])
               @ [Log LOGDEBUG (''[Tailscale] Logging in with command: '' @ login_logged_cmd cmd),
                  Run cmd (Some 60)]
      in case ob of
           Inl e \<Rightarrow> (e1, Inl e)
         | Inr r \<Rightarrow>
             if returncode r = 0 then
               (e1 @ [Log LOGINFO ''[Tailscale] Login successful'']
                   @ show_notification ''Tailscale'' ''Connected successfully'' 5000,
                Inr True)
             else
               (e1 @ [Log LOGERROR (''[Tailscale] Login failed: '' @ stderr r)]
                   @ (if sublist ''visit the admin console'' (stderr r)
                      then show_auth_notification else []),
                Inr False))"

definition login :: "service \<Rightarrow> settings \<Rightarrow> exn + completed \<Rightarrow> event list \<times> bool" where
  "login svc st ob =
     (case login_try svc st ob of
        (evs, Inl e) \<Rightarrow> (evs @ [Log LOGERROR (''[Tailscale] Error during login: '' @ e)], False)
      | (evs, Inr b) \<Rightarrow> (evs, b))"

subsection \<open>authenticate_if_needed\<close>

text \<open>
  What the authentication step observes: the run of the status command and, if it comes
  to that, the run of the login command.
\<close>

record auth_obs =
  status_run :: "exn + completed"
  login_run :: "exn + completed"

text \<open>
  The method has no \<open>try\<close>: an \<open>AttributeError\<close> of \<open>status.get\<close> leaves it. It returns
  \<open>None\<close> on every path.
\<close>

definition authenticate_if_needed ::
  "service \<Rightarrow> settings \<Rightarrow> loads \<Rightarrow> auth_obs \<Rightarrow> event list \<times> (exn + unit)" where
  "authenticate_if_needed svc st loads ob =
     (case get_tailscale_status svc loads (status_run ob) of
        (e1, Inl e) \<Rightarrow> (e1, Inl e)
      | (e1, Inr status) \<Rightarrow>
          if \<not> py_truthy status then
            (e1 @ [Log LOGWARNING ''[Tailscale] Cannot get status, daemon may not be running''],
             Inr ())
          else
            (case py_get status ''BackendState'' of
               Inl e \<Rightarrow> (e1, Inl e)
             | Inr v \<Rightarrow>
                 if v = JStr ''NeedsLogin'' then
                   (if st ''auto_login'' = ''true'' then
                      (e1 @ fst (login svc st (login_run ob)), Inr ())
                    else
                      (e1 @ [Log LOGINFO
                               ''[Tailscale] Authentication needed but auto_login disabled'']
                          @ show_auth_notification,
                       Inr ()))
                 else (e1, Inr ())))"

subsection \<open>stop_tailscale\<close>

text \<open>
  What \<open>stop_tailscale\<close> observes of the child it owns: \<open>poll()\<close> (\<open>None\<close>: still running),
  whether \<open>terminate()\<close> raises, and whether \<open>wait(timeout=10)\<close> raises
  (\<open>TimeoutExpired\<close>) or gives the exit code.
\<close>

record stop_obs =
  stop_poll :: "int option"
  stop_terminate :: "exn option"
  stop_wait :: "exn + int"

definition stop_tailscale_try :: "service \<Rightarrow> stop_obs \<Rightarrow> event list \<times> (exn + unit)" where
  "stop_tailscale_try svc ob =
     (case tailscaled_process svc of
        None \<Rightarrow> ([], Inr ())
      | Some p \<Rightarrow>
          if stop_poll ob = None then
            (case stop_terminate ob of
               Some e \<Rightarrow> ([Poll p, Terminate p], Inl e)
             | None \<Rightarrow>
                 (case stop_wait ob of
                    Inl e \<Rightarrow> ([Poll p, Terminate p, Wait p 10], Inl e)
                  | Inr rc \<Rightarrow>
                      ([Poll p, Terminate p, Wait p 10,
                        Log LOGINFO ''[Tailscale] tailscaled stopped''],
                       Inr ())))
          else ([Poll p], Inr ()))"

text \<open>The bare \<open>except: pass\<close>: whatever the block raised is dropped.\<close>

definition stop_tailscale :: "service \<Rightarrow> stop_obs \<Rightarrow> event list \<times> (exn + unit)" where
  "stop_tailscale svc ob =
     (case stop_tailscale_try svc ob of
        (evs, Inl e) \<Rightarrow> (evs, Inr ())
      | (evs, Inr u) \<Rightarrow> (evs, Inr u))"

subsection \<open>run\<close>

text \<open>
  One pass of the \<open>while\<close> loop observes the abort flag at the loop's head, what
  \<open>waitForAbort(30)\<close> returns, the \<open>pgrep\<close> of the liveness check and, when the daemon
  is gone, what the restart and the authentication step observe.
\<close>

record tick_obs =
  abort_requested :: bool
  wait_for_abort :: bool
  tick_pgrep :: "exn + completed"
  tick_start :: start_obs
  tick_auth :: auth_obs

text \<open>How a pass of the loop body ends: at its end, by \<open>break\<close>, or by a raise.\<close>

datatype flow = Continue | Break | Raise exn

definition loop_body ::
  "service \<Rightarrow> settings \<Rightarrow> loads \<Rightarrow> tick_obs \<Rightarrow> event list \<times> service \<times> flow" where
  "loop_body svc st loads t =
     (if wait_for_abort t then ([WaitForAbort 30], svc, Break)
      else
        (case is_tailscaled_running (tick_pgrep t) of (e1, alive) \<Rightarrow>
           if \<not> alive then
             (case start_tailscaled svc st (tick_start t) of (e2, svc', ok) \<Rightarrow>
                (case authenticate_if_needed svc' st loads (tick_auth t) of (e3, r) \<Rightarrow>
                   ([WaitForAbort 30] @ e1
                      @ [Log LOGWARNING ''[Tailscale] Daemon died, restarting''] @ e2
                      @ [Sleep 3] @ e3,
                    svc',
                    (case r of Inl e \<Rightarrow> Raise e | Inr u \<Rightarrow> Continue))))
           else ([WaitForAbort 30] @ e1, svc, Continue)))"

text \<open>
  The loop runs until the host asks for an abort, which may be never. The model runs it
  over the observations of finitely many passes: \<open>Polling\<close> says that the loop is still
  going when they are used up.
\<close>

datatype outcome = Returned | Raised exn | Polling

fun monitor_loop ::
  "service \<Rightarrow> settings \<Rightarrow> loads \<Rightarrow> tick_obs list \<Rightarrow> event list \<times> service \<times> outcome" where
  "monitor_loop svc st loads [] = ([], svc, Polling)"
| "monitor_loop svc st loads (t # ts) =
     (if abort_requested t then ([AbortRequested], svc, Returned)
      else
        (case loop_body svc st loads t of
           (e, svc', Break) \<Rightarrow> (AbortRequested # e, svc', Returned)
         | (e, svc', Raise x) \<Rightarrow> (AbortRequested # e, svc', Raised x)
         | (e, svc', Continue) \<Rightarrow>
             (case monitor_loop svc' st loads ts of
                (es, svc'', r) \<Rightarrow> (AbortRequested # e @ es, svc'', r))))"

record run_obs =
  run_start :: start_obs
  run_auth :: auth_obs
  run_ticks :: "tick_obs list"
  run_stop :: stop_obs

definition run ::
  "service \<Rightarrow> settings \<Rightarrow> loads \<Rightarrow> run_obs \<Rightarrow> event list \<times> service \<times> outcome" where
  "run svc st loads ob =
     (case start_tailscaled svc st (run_start ob) of (e0, svc0, ok) \<Rightarrow>
        if \<not> ok then
          ([Log LOGINFO ''[Tailscale] Service starting''] @ e0
             @ [Log LOGERROR ''[Tailscale] Failed to start daemon, exiting''],
           svc0, Returned)
        else
          (case authenticate_if_needed svc0 st loads (run_auth ob) of
             (e1, Inl e) \<Rightarrow>
               ([Log LOGINFO ''[Tailscale] Service starting''] @ e0 @ [Sleep 3] @ e1,
                svc0, Raised e)
           | (e1, Inr u) \<Rightarrow>
               (case monitor_loop svc0 st loads (run_ticks ob) of
                  (e2, svc1, Returned) \<Rightarrow>
                    ([Log LOGINFO ''[Tailscale] Service starting''] @ e0 @ [Sleep 3] @ e1 @ e2
                       @ fst (stop_tailscale svc1 (run_stop ob))
                       @ [Log LOGINFO ''[Tailscale] Service stopped''],
                     svc1, Returned)
                | (e2, svc1, r) \<Rightarrow>
                    ([Log LOGINFO ''[Tailscale] Service starting''] @ e0 @ [Sleep 3] @ e1 @ e2,
                     svc1, r))))"

section \<open>The configuration service (configurations/addons/service.tailscale-config/service.py)\<close>

text \<open>
  The settings \<open>apply_settings\<close> reads, as \<open>getSettingBool\<close> and \<open>getSettingString\<close> give
  them (the strings before \<open>strip()\<close>).
\<close>

record config_settings =
  cs_enabled :: bool
  cs_authkey :: string
  cs_accept_routes :: bool
  cs_exit_node :: string
  cs_hostname :: string
  cs_advertise_routes :: string
  cs_ssh_enabled :: bool

text \<open>\<open>self.log(message)\<close>.\<close>

definition config_log :: "string \<Rightarrow> event" where
  "config_log message = Log LOGINFO (''[Tailscale Config] '' @ message)"

definition authkey_file :: string where
  "authkey_file = os_path_join ''/storage/.config/tailscale'' ''authkey''"

text \<open>
  \<open>run_command(cmd)\<close>: the shell runs \<open>cmd\<close>; a raise is logged with the command and
  returned as a failure.
\<close>

definition run_command :: "string \<Rightarrow> exn + completed \<Rightarrow> event list \<times> bool \<times> string \<times> string" where
  "run_command cmd ob =
     (case ob of
        Inl e \<Rightarrow>
          ([RunShell cmd, config_log (''Command failed: '' @ cmd @ '' - Error: '' @ e)],
           False, [], e)
      | Inr r \<Rightarrow> ([RunShell cmd], returncode r = 0, py_strip (stdout r), py_strip (stderr r)))"

text \<open>
  What \<open>apply_settings\<close> observes: the result of each shell command, whether the auth-key
  file exists, and whether removing the file, opening it, writing it or \<open>chmod\<close> raises.
  The notification is taken not to raise.
\<close>

record apply_obs =
  shell :: "string \<Rightarrow> exn + completed"
  authkey_file_exists :: bool
  remove_raises :: "exn option"
  open_raises :: "exn option"
  write_raises :: "exn option"
  chmod_raises :: "exn option"

text \<open>The branch of \<open>if not enabled or not authkey\<close>.\<close>

definition disable_tailscale :: "apply_obs \<Rightarrow> event list \<times> (exn + unit)" where
  "disable_tailscale ob =
     (let e1 = [config_log ''Disabling Tailscale service'']
                @ fst (run_command ''systemctl stop tailscale'' (shell ob ''systemctl stop tailscale''))
                @ fst (run_command ''systemctl disable tailscale''
                         (shell ob ''systemctl disable tailscale''))
                @ [PathExists authkey_file]
      in if authkey_file_exists ob then
           (e1 @ [Remove authkey_file],
            (case remove_raises ob of Some e \<Rightarrow> Inl e | None \<Rightarrow> Inr ()))
         else (e1, Inr ()))"

definition up_cmd_parts :: "config_settings \<Rightarrow> string list" where
  "up_cmd_parts cfg =
     [''/storage/.kodi/addons/service.tailscale/bin/tailscale'', ''up'',
      ''--authkey='' @ py_strip (cs_authkey cfg)]
     @ (if cs_accept_routes cfg then [''--accept-routes''] else [])
     @ (if py_strip (cs_exit_node cfg) \<noteq> []
        then [''--exit-node='' @ py_strip (cs_exit_node cfg)] else [])
     @ (if py_strip (cs_hostname cfg) \<noteq> []
        then [''--hostname='' @ py_strip (cs_hostname cfg)] else [])
     @ (if py_strip (cs_advertise_routes cfg) \<noteq> []
        then [''--advertise-routes='' @ py_strip (cs_advertise_routes cfg)] else [])
     @ (if cs_ssh_enabled cfg then [''--ssh''] else [])"

text \<open>
  The branch that configures Tailscale, from \<open>with open(self.authkey_file, 'w')\<close> on:
  the file is opened, the key written, the mode set to \<open>0o600\<close> (384), the service
  enabled and started, and the \<open>tailscale up\<close> command logged and run.
\<close>

definition enable_tailscale :: "config_settings \<Rightarrow> apply_obs \<Rightarrow> event list \<times> (exn + unit)" where
  "enable_tailscale cfg ob =
     (case open_raises ob of
        Some e \<Rightarrow> ([OpenWrite authkey_file], Inl e)
      | None \<Rightarrow>
          (let e1 = [OpenWrite authkey_file,
                     WriteFile authkey_file (py_strip (cs_authkey cfg))] in
           case write_raises ob of
             Some e \<Rightarrow> (e1, Inl e)
           | None \<Rightarrow>
               (let e2 = e1 @ [Chmod authkey_file 384] in
                case chmod_raises ob of
                  Some e \<Rightarrow> (e2, Inl e)
                | None \<Rightarrow>
                    (let cmd = py_join '' '' (up_cmd_parts cfg);
                         e3 = e2 @ [config_log ''Enabling Tailscale service'']
                                @ fst (run_command ''systemctl enable tailscale''
                                         (shell ob ''systemctl enable tailscale''))
                                @ fst (run_command ''systemctl start tailscale''
                                         (shell ob ''systemctl start tailscale''))
                                @ [Sleep 2, config_log (''Running: '' @ cmd)]
                     in case run_command cmd (shell ob cmd) of
                          (e4, success, out, err) \<Rightarrow>
                            if success then
                              (e3 @ e4 @ [config_log ''Tailscale configured successfully'',
                                          Notification ''Tailscale''
                                            ''Configuration applied successfully''
                                            NOTIFICATION_INFO 5000],
                               Inr ())
                            else
                              (e3 @ e4
                                 @ [config_log (''Tailscale configuration failed: '' @ err),
                                    Notification ''Tailscale''
                                      (''Configuration failed: '' @ take 50 err @ ''...'')
                                      NOTIFICATION_ERROR 8000],
                               Inr ())))))"

text \<open>
  \<open>apply_settings\<close> has no \<open>try\<close>: a raise of the file operations leaves it. \<open>or\<close>
  tests \<open>not authkey\<close> only when \<open>enabled\<close> holds.
\<close>

definition apply_settings :: "config_settings \<Rightarrow> apply_obs \<Rightarrow> event list \<times> (exn + unit)" where
  "apply_settings cfg ob =
     (let e0 = [config_log (''Applying settings - Enabled: '' @ py_str_bool (cs_enabled cfg)
                            @ '', Has authkey: ''
                            @ py_str_bool (py_strip (cs_authkey cfg) \<noteq> []))];
          r = (if \<not> cs_enabled cfg then disable_tailscale ob
               else if py_strip (cs_authkey cfg) = [] then disable_tailscale ob
               else enable_tailscale cfg ob)
      in (e0 @ fst r, snd r))"

section \<open>The setup wizard (setup-wizard/source/default.py)\<close>

text \<open>\<open>self.config\<close>: a dict with these five keys, all strings.\<close>

record wizard_config =
  jellyfin_server :: string
  jellyfin_username :: string
  jellyfin_password :: string
  tailscale_authkey :: string
  device_hostname :: string

text \<open>
  \<open>safe_config\<close>, in the order the dict is built; \<open>date\<close> is what
  \<open>time.strftime('%Y-%m-%d %H:%M:%S')\<close> returns.
\<close>

definition safe_config :: "wizard_config \<Rightarrow> string \<Rightarrow> (string \<times> json) list" where
  "safe_config cfg date =
     [(''jellyfin_server'', JStr (jellyfin_server cfg)),
      (''jellyfin_username'', JStr (jellyfin_username cfg)),
      (''device_hostname'', JStr (device_hostname cfg)),
      (''setup_completed'', JBool True),
      (''setup_date'', JStr date)]"

text \<open>
  What \<open>save_config\<close> observes: whether \<open>open(config_file, 'w')\<close> raises and whether
  \<open>json.dump\<close> into the open file raises.
\<close>

record save_obs =
  save_open_raises :: "exn option"
  save_dump_raises :: "exn option"

definition config_file :: string where
  "config_file = ''/storage/.config/raven-config.json''"

text \<open>
  The \<open>try\<close> block of \<open>save_config\<close>: the dict is built, the file opened, and
  \<open>json.dump(safe_config, f, indent=2)\<close> writes it; then \<open>True\<close> is returned. The dump
  is reached only when the file has been opened.
\<close>

definition save_config_try ::
  "wizard_config \<Rightarrow> string \<Rightarrow> save_obs \<Rightarrow> event list \<times> (exn + bool)" where
  "save_config_try cfg date ob =
     (case save_open_raises ob of
        Some e \<Rightarrow> ([OpenWrite config_file], Inl e)
      | None \<Rightarrow>
          (case save_dump_raises ob of
             Some e \<Rightarrow>
               ([OpenWrite config_file, DumpJson config_file (JObj (safe_config cfg date)) 2],
                Inl e)
           | None \<Rightarrow>
               ([OpenWrite config_file, DumpJson config_file (JObj (safe_config cfg date)) 2],
                Inr True)))"

text \<open>\<open>except Exception as e\<close>: log the error, return \<open>False\<close>.\<close>

definition save_config :: "wizard_config \<Rightarrow> string \<Rightarrow> save_obs \<Rightarrow> event list \<times> bool" where
  "save_config cfg date ob =
     (case save_config_try cfg date ob of
        (evs, Inl e) \<Rightarrow> (evs @ [Log LOGERROR (''Error saving config: '' @ e)], False)
      | (evs, Inr b) \<Rightarrow> (evs, b))"

section \<open>Observers of a trace and sample inputs\<close>

text \<open>An invocation of the login command: a run whose third argument is \<open>up\<close>.\<close>

fun is_login_invocation :: "event \<Rightarrow> bool" where
  "is_login_invocation (Run (a # b # c # rest) tmo) = (c = ''up'')"
| "is_login_invocation ev = False"

definition login_invocations :: "event list \<Rightarrow> nat" where
  "login_invocations evs = length (filter is_login_invocation evs)"

text \<open>A spawn of the daemon.\<close>

fun is_spawn :: "event \<Rightarrow> bool" where
  "is_spawn (Popen cmd home) = True"
| "is_spawn ev = False"

definition spawns :: "event list \<Rightarrow> nat" where
  "spawns evs = length (filter is_spawn evs)"

text \<open>A forced kill of a child.\<close>

fun is_kill :: "event \<Rightarrow> bool" where
  "is_kill (Kill p) = True"
| "is_kill ev = False"

text \<open>A liveness check: a run of \<open>pgrep -f tailscaled\<close>.\<close>

fun is_liveness_check :: "event \<Rightarrow> bool" where
  "is_liveness_check (Run cmd tmo) = (cmd = pgrep_cmd \<and> tmo = None)"
| "is_liveness_check ev = False"

definition liveness_checks :: "event list \<Rightarrow> nat" where
  "liveness_checks evs = length (filter is_liveness_check evs)"

text \<open>A dump of JSON into a file.\<close>

fun is_dump :: "event \<Rightarrow> bool" where
  "is_dump (DumpJson path j indent) = True"
| "is_dump ev = False"

text \<open>A service as \<open>__init__\<close> leaves it on a LibreELEC box, and settings left at their defaults.\<close>

definition sample_service :: service where
  "sample_service =
     \<lparr>addon_data = ''/storage/.kodi/userdata/addon_data/service.tailscale/'',
      tailscaled_bin = ''/storage/.kodi/addons/service.tailscale/bin/tailscaled'',
      tailscale_bin = ''/storage/.kodi/addons/service.tailscale/bin/tailscale'',
      state_dir = ''/storage/.kodi/userdata/addon_data/service.tailscale/tailscale-state'',
      tailscaled_process = None\<rparr>"

definition no_settings :: settings where
  "no_settings = (\<lambda>k. [])"

definition exit_with :: "int \<Rightarrow> exn + completed" where
  "exit_with rc = Inr \<lparr>returncode = rc, stdout = [], stderr = []\<rparr>"

text \<open>The daemon is absent, the spawn succeeds, and the child is alive after two seconds.\<close>

definition start_ok :: start_obs where
  "start_ok = \<lparr>start_pgrep = exit_with 1, start_popen = Inr 4242, start_poll = None\<rparr>"

text \<open>The daemon is absent, the spawn succeeds, and the child has exited after two seconds.\<close>

definition start_dies :: start_obs where
  "start_dies = \<lparr>start_pgrep = exit_with 1, start_popen = Inr 4242, start_poll = Some 1\<rparr>"

text \<open>
  What \<open>json.loads\<close> gives on the texts the examples below use: two status objects, and
  the \<open>JSONDecodeError\<close> of a malformed text such as \<open>{not valid\<close>.
\<close>

definition sample_loads :: loads where
  "sample_loads s =
     (if s = ''{\"BackendState\": \"NeedsLogin\"}''
        then Inr (JObj [(''BackendState'', JStr ''NeedsLogin'')])
      else if s = ''{\"BackendState\": \"Running\"}''
        then Inr (JObj [(''BackendState'', JStr ''Running'')])
      else Inl ''Expecting property name enclosed in double quotes: line 1 column 2 (char 1)'')"

definition stdout_of :: "string \<Rightarrow> exn + completed" where
  "stdout_of s = Inr \<lparr>returncode = 0, stdout = s, stderr = []\<rparr>"

text \<open>The daemon reports \<open>NeedsLogin\<close>; the login command, if run, exits with 0.\<close>

definition needs_login_obs :: auth_obs where
  "needs_login_obs =
     \<lparr>status_run = stdout_of ''{\"BackendState\": \"NeedsLogin\"}'', login_run = exit_with 0\<rparr>"

text \<open>The daemon reports \<open>Running\<close>.\<close>

definition running_obs :: auth_obs where
  "running_obs =
     \<lparr>status_run = stdout_of ''{\"BackendState\": \"Running\"}'', login_run = exit_with 0\<rparr>"

text \<open>The status command fails: the daemon cannot be reached.\<close>

definition unreachable_obs :: auth_obs where
  "unreachable_obs = \<lparr>status_run = exit_with 1, login_run = exit_with 1\<rparr>"

text \<open>Only \<open>auto_login\<close> is set; no auth key is configured.\<close>

definition auto_login_only :: settings where
  "auto_login_only = (\<lambda>k. if k = ''auto_login'' then ''true'' else [])"

text \<open>
  A poll tick on which the daemon is gone and the restart fails, and one on which it is
  gone and the restart succeeds.
\<close>

definition failed_restart_tick :: tick_obs where
  "failed_restart_tick =
     \<lparr>abort_requested = False, wait_for_abort = False, tick_pgrep = exit_with 1,
      tick_start = start_dies, tick_auth = unreachable_obs\<rparr>"

definition restart_tick :: tick_obs where
  "restart_tick =
     \<lparr>abort_requested = False, wait_for_abort = False, tick_pgrep = exit_with 1,
      tick_start = start_ok, tick_auth = running_obs\<rparr>"

text \<open>A service that owns the child 4242, and a stop whose \<open>wait\<close> times out.\<close>

definition owning_service :: service where
  "owning_service = sample_service\<lparr>tailscaled_process := Some 4242\<rparr>"

definition stop_times_out :: stop_obs where
  "stop_times_out =
     \<lparr>stop_poll = None, stop_terminate = None,
      stop_wait = Inl ''Command timed out after 10 seconds''\<rparr>"

definition stop_clean :: stop_obs where
  "stop_clean = \<lparr>stop_poll = None, stop_terminate = None, stop_wait = Inr 0\<rparr>"

definition stop_already_gone :: stop_obs where
  "stop_already_gone = \<lparr>stop_poll = Some 0, stop_terminate = None, stop_wait = Inr 0\<rparr>"

text \<open>The configuration service enabled with the auth key \<open>tskey-abc123\<close>; every command succeeds.\<close>

definition sample_config :: config_settings where
  "sample_config =
     \<lparr>cs_enabled = True, cs_authkey = ''tskey-abc123'', cs_accept_routes = False,
      cs_exit_node = [], cs_hostname = [], cs_advertise_routes = [], cs_ssh_enabled = False\<rparr>"

definition sample_apply_obs :: apply_obs where
  "sample_apply_obs =
     \<lparr>shell = (\<lambda>cmd. exit_with 0), authkey_file_exists = False, remove_raises = None,
      open_raises = None, write_raises = None, chmod_raises = None\<rparr>"

section \<open>The daemon's port argument\<close>

lemma py_or_nonempty: "a \<noteq> [] \<Longrightarrow> py_or a b = a"
  by (simp add: py_or_def)

lemma port_argument: "py_or (''--port='' @ p) ''41641'' = ''--port='' @ p"
  by (simp add: py_or_def)

lemma tailscaled_cmd_eq:
  "tailscaled_cmd svc st =
     [tailscaled_bin svc,
      ''--state='' @ os_path_join (state_dir svc) ''tailscaled.state'',
      ''--socket='' @ os_path_join (state_dir svc) ''tailscaled.sock'',
      ''--port='' @ st ''daemon_port'']"
  by (simp add: tailscaled_cmd_def py_or_def)

lemma start_tailscaled_spawns:
  assumes "snd (is_tailscaled_running (start_pgrep ob)) = False"
  shows "Popen (tailscaled_cmd svc st) (addon_data svc) \<in> set (fst (start_tailscaled svc st ob))"
  using assms
  by (simp add: start_tailscaled_def start_tailscaled_try_def is_tailscaled_running_def
           Let_def split: sum.splits)

text \<open>
  C9. Whatever the settings hold, the port argument of the daemon's command line is
  \<open>--port=\<close> followed by the \<open>daemon_port\<close> setting, and it is never the fallback
  \<open>41641\<close>. With an empty \<open>daemon_port\<close> the argument is the literal \<open>--port=\<close>, and
  when the daemon is not yet running \<open>start_tailscaled\<close> spawns it with exactly that
  argument.
\<close>

theorem daemon_port_fallback_unreachable:
  "last (tailscaled_cmd svc st) = ''--port='' @ st ''daemon_port''
   \<and> last (tailscaled_cmd svc st) \<noteq> ''41641''
   \<and> (st ''daemon_port'' = '''' \<longrightarrow>
        last (tailscaled_cmd svc st) = ''--port=''
        \<and> (snd (is_tailscaled_running (start_pgrep ob)) = False \<longrightarrow>
             Popen [tailscaled_bin svc,
                    ''--state='' @ os_path_join (state_dir svc) ''tailscaled.state'',
                    ''--socket='' @ os_path_join (state_dir svc) ''tailscaled.sock'',
                    ''--port='']
                   (addon_data svc)
               \<in> set (fst (start_tailscaled svc st ob))))"
proof -
  have a: "last (tailscaled_cmd svc st) = ''--port='' @ st ''daemon_port''"
    by (simp add: tailscaled_cmd_eq)
  have b: "last (tailscaled_cmd svc st) \<noteq> ''41641''"
    by (simp add: tailscaled_cmd_eq)
  have c: "Popen [tailscaled_bin svc,
                  ''--state='' @ os_path_join (state_dir svc) ''tailscaled.state'',
                  ''--socket='' @ os_path_join (state_dir svc) ''tailscaled.sock'',
                  ''--port='']
                 (addon_data svc)
             \<in> set (fst (start_tailscaled svc st ob))"
    if "st ''daemon_port'' = ''''" "snd (is_tailscaled_running (start_pgrep ob)) = False"
    using start_tailscaled_spawns [OF that(2), of svc st] that(1)
    by (simp add: tailscaled_cmd_eq)
  from a b c show ?thesis by simp
qed

theorem daemon_port_fallback_unreachable_witness:
  "Popen [tailscaled_bin sample_service,
          ''--state='' @ os_path_join (state_dir sample_service) ''tailscaled.state'',
          ''--socket='' @ os_path_join (state_dir sample_service) ''tailscaled.sock'',
          ''--port='']
         (addon_data sample_service)
     \<in> set (fst (start_tailscaled sample_service no_settings start_ok))"
  using daemon_port_fallback_unreachable
          [where svc = sample_service and st = no_settings and ob = start_ok]
  by (simp add: no_settings_def start_ok_def exit_with_def is_tailscaled_running_def)

section \<open>Probing the daemon's status\<close>

lemma get_tailscale_status_cases:
  "get_tailscale_status svc loads ob =
     (case ob of
        Inl e \<Rightarrow> ([Run (status_cmd svc) (Some 10),
                   Log LOGDEBUG (''[Tailscale] Error getting status: '' @ e)], Inr JNull)
      | Inr r \<Rightarrow>
          if returncode r = 0 then
            (case loads (stdout r) of
               Inl e \<Rightarrow> ([Run (status_cmd svc) (Some 10),
                          Log LOGDEBUG (''[Tailscale] Error getting status: '' @ e)], Inr JNull)
             | Inr j \<Rightarrow> ([Run (status_cmd svc) (Some 10)], Inr j))
          else ([Run (status_cmd svc) (Some 10)], Inr JNull))"
  by (simp add: get_tailscale_status_def get_tailscale_status_try_def split: sum.splits)

lemma get_tailscale_status_returns:
  "\<exists>evs j. get_tailscale_status svc loads ob = (evs, Inr j)"
  by (simp add: get_tailscale_status_cases split: sum.splits)

lemma status_not_login: "is_login_invocation (Run (status_cmd svc) tmo) = False"
  by (simp add: status_cmd_def)

lemma status_no_login_invocations:
  "login_invocations (fst (get_tailscale_status svc loads ob)) = 0"
  by (simp add: get_tailscale_status_cases login_invocations_def status_not_login
        split: sum.splits)

text \<open>
  C5. Whatever the status command does and whatever \<open>json.loads\<close> does with its output,
  \<open>get_tailscale_status\<close> returns a value and raises nothing. When the command exits with
  a non-zero code the value is \<open>None\<close>; when it exits with 0 and the output is malformed
  JSON (\<open>json.loads\<close> raises), the error is logged at debug level and the value is
  \<open>None\<close>.
\<close>

theorem get_tailscale_status_never_raises:
  "(\<exists>evs j. get_tailscale_status svc loads ob = (evs, Inr j))
   \<and> (\<forall>r. ob = Inr r \<and> returncode r \<noteq> 0 \<longrightarrow>
          get_tailscale_status svc loads ob = ([Run (status_cmd svc) (Some 10)], Inr JNull))
   \<and> (\<forall>r e. ob = Inr r \<and> returncode r = 0 \<and> loads (stdout r) = Inl e \<longrightarrow>
          get_tailscale_status svc loads ob =
            ([Run (status_cmd svc) (Some 10),
              Log LOGDEBUG (''[Tailscale] Error getting status: '' @ e)], Inr JNull))"
  using get_tailscale_status_returns [of svc loads ob]
  by (simp add: get_tailscale_status_cases)

theorem get_tailscale_status_never_raises_witness:
  "snd (get_tailscale_status sample_service sample_loads (stdout_of ''{not valid'')) = Inr JNull
   \<and> snd (get_tailscale_status sample_service sample_loads (exit_with 1)) = Inr JNull"
  using get_tailscale_status_never_raises
          [where svc = sample_service and loads = sample_loads and ob = "stdout_of ''{not valid''"]
        get_tailscale_status_never_raises
          [where svc = sample_service and loads = sample_loads and ob = "exit_with 1"]
  by (simp add: stdout_of_def exit_with_def sample_loads_def)

section \<open>The authentication step\<close>

text \<open>
  What \<open>authenticate_if_needed\<close> does once the probe has returned a status dict that has
  a \<open>BackendState\<close>.
\<close>

lemma authenticate_snapshot:
  assumes "snd (get_tailscale_status svc loads (status_run ob)) = Inr (JObj kvs)"
    and "map_of kvs ''BackendState'' = Some v"
  shows "authenticate_if_needed svc st loads ob =
           (if v = JStr ''NeedsLogin'' then
              (if st ''auto_login'' = ''true'' then
                 (fst (get_tailscale_status svc loads (status_run ob))
                    @ fst (login svc st (login_run ob)), Inr ())
               else
                 (fst (get_tailscale_status svc loads (status_run ob))
                    @ [Log LOGINFO ''[Tailscale] Authentication needed but auto_login disabled'']
                    @ show_auth_notification, Inr ()))
            else (fst (get_tailscale_status svc loads (status_run ob)), Inr ()))"
proof -
  obtain e1 where g: "get_tailscale_status svc loads (status_run ob) = (e1, Inr (JObj kvs))"
    using assms(1) by (cases "get_tailscale_status svc loads (status_run ob)") simp
  from assms(2) have ne: "kvs \<noteq> []" by auto
  show ?thesis
    by (simp add: authenticate_if_needed_def g ne assms(2))
qed

lemma sample_running:
  "snd (get_tailscale_status sample_service sample_loads (status_run running_obs))
     = Inr (JObj [(''BackendState'', JStr ''Running'')])"
  by (simp add: get_tailscale_status_cases running_obs_def stdout_of_def sample_loads_def)

lemma sample_needs_login:
  "snd (get_tailscale_status sample_service sample_loads (status_run needs_login_obs))
     = Inr (JObj [(''BackendState'', JStr ''NeedsLogin'')])"
  by (simp add: get_tailscale_status_cases needs_login_obs_def stdout_of_def sample_loads_def)

lemma running_state:
  "map_of [(''BackendState'', JStr ''Running'')] ''BackendState'' = Some (JStr ''Running'')"
  by simp

lemma needs_login_state:
  "map_of [(''BackendState'', JStr ''NeedsLogin'')] ''BackendState'' = Some (JStr ''NeedsLogin'')"
  by simp

text \<open>
  C6. When the probe returns a status dict whose \<open>BackendState\<close> is \<open>Running\<close>, the
  authentication step does nothing beyond the probe itself: its trace is the one run of
  the status command, and it holds no invocation of \<open>tailscale up\<close>, whatever the
  settings.
\<close>

theorem running_never_logs_in:
  assumes "snd (get_tailscale_status svc loads (status_run ob)) = Inr (JObj kvs)"
    and "map_of kvs ''BackendState'' = Some (JStr ''Running'')"
  shows "authenticate_if_needed svc st loads ob = ([Run (status_cmd svc) (Some 10)], Inr ())
         \<and> login_invocations (fst (authenticate_if_needed svc st loads ob)) = 0"
proof -
  have a: "authenticate_if_needed svc st loads ob =
             (fst (get_tailscale_status svc loads (status_run ob)), Inr ())"
    using authenticate_snapshot [OF assms] by simp
  have b: "fst (get_tailscale_status svc loads (status_run ob)) = [Run (status_cmd svc) (Some 10)]"
    using assms(1) by (auto simp: get_tailscale_status_cases split: sum.splits if_splits)
  show ?thesis by (simp add: a b login_invocations_def status_not_login)
qed

theorem running_never_logs_in_witness:
  "login_invocations
     (fst (authenticate_if_needed sample_service auto_login_only sample_loads running_obs)) = 0"
  by (rule running_never_logs_in [OF sample_running running_state, THEN conjunct2])

lemma login_invocations_append:
  "login_invocations (a @ b) = login_invocations a + login_invocations b"
  by (simp add: login_invocations_def)

lemma login_cmd_shape:
  "\<exists>rest. login_cmd svc st = tailscale_bin svc # socket_arg svc # ''up'' # rest"
  by (simp add: login_cmd_def)

lemma login_cmd_is_login: "is_login_invocation (Run (login_cmd svc st) tmo)"
proof -
  obtain rest where "login_cmd svc st = tailscale_bin svc # socket_arg svc # ''up'' # rest"
    using login_cmd_shape by blast
  then show ?thesis by simp
qed

lemma login_invocations_login: "login_invocations (fst (login svc st ob)) = 1"
proof (cases ob)
  case (Inl e)
  then show ?thesis
    by (simp add: login_def login_try_def Let_def login_invocations_def login_cmd_is_login)
next
  case (Inr r)
  then show ?thesis
    by (simp add: login_def login_try_def Let_def login_invocations_def login_cmd_is_login
          show_notification_def show_auth_notification_def)
qed


text \<open>
  C2, as stated, fails: with \<open>BackendState\<close> \<open>NeedsLogin\<close>, \<open>auto_login\<close> set to \<open>true\<close>
  and no auth key configured, the authentication step calls \<open>login\<close>, which runs
  \<open>tailscale up\<close> once (without \<open>--authkey\<close>).
\<close>

theorem needs_login_no_key_still_logs_in:
  "auto_login_only ''auth_key'' = []
   \<and> snd (get_tailscale_status sample_service sample_loads (status_run needs_login_obs))
       = Inr (JObj [(''BackendState'', JStr ''NeedsLogin'')])
   \<and> login_invocations
        (fst (authenticate_if_needed sample_service auto_login_only sample_loads needs_login_obs)) = 1"
proof -
  have on: "auto_login_only ''auto_login'' = ''true''"
    by (simp add: auto_login_only_def)
  have key: "auto_login_only ''auth_key'' = []"
    by (simp add: auto_login_only_def)
  have "authenticate_if_needed sample_service auto_login_only sample_loads needs_login_obs =
          (fst (get_tailscale_status sample_service sample_loads (status_run needs_login_obs))
             @ fst (login sample_service auto_login_only (login_run needs_login_obs)), Inr ())"
    by (simp add: authenticate_snapshot [OF sample_needs_login needs_login_state] on)
  then have "login_invocations
        (fst (authenticate_if_needed sample_service auto_login_only sample_loads needs_login_obs)) = 1"
    by (simp only: fst_conv login_invocations_append status_no_login_invocations
          login_invocations_login add_0)
  with key sample_needs_login show ?thesis by (simp only: simp_thms)
qed

text \<open>
  C2, amended. What decides is the \<open>auto_login\<close> setting, not the auth key. With
  \<open>BackendState\<close> \<open>NeedsLogin\<close> and \<open>auto_login\<close> other than \<open>true\<close>, the
  authentication step logs that authentication is needed, raises the
  manual-authentication notification and never invokes \<open>tailscale up\<close>. With
  \<open>auto_login\<close> \<open>true\<close> it invokes \<open>tailscale up\<close> exactly once, whether or not an
  auth key is configured.
\<close>

theorem needs_login_gated_by_auto_login:
  assumes "snd (get_tailscale_status svc loads (status_run ob)) = Inr (JObj kvs)"
    and "map_of kvs ''BackendState'' = Some (JStr ''NeedsLogin'')"
  shows "(st ''auto_login'' \<noteq> ''true'' \<longrightarrow>
            authenticate_if_needed svc st loads ob =
              (fst (get_tailscale_status svc loads (status_run ob))
                 @ [Log LOGINFO ''[Tailscale] Authentication needed but auto_login disabled'',
                    Notification ''Tailscale Authentication Required''
                      ''Please run 'tailscale up' manually or check addon settings''
                      NOTIFICATION_INFO 10000],
               Inr ())
            \<and> login_invocations (fst (authenticate_if_needed svc st loads ob)) = 0)
         \<and> (st ''auto_login'' = ''true'' \<longrightarrow>
              login_invocations (fst (authenticate_if_needed svc st loads ob)) = 1)"
proof (cases "st ''auto_login'' = ''true''")
  case True
  have "authenticate_if_needed svc st loads ob =
          (fst (get_tailscale_status svc loads (status_run ob))
             @ fst (login svc st (login_run ob)), Inr ())"
    by (simp add: authenticate_snapshot [OF assms] True)
  then have "login_invocations (fst (authenticate_if_needed svc st loads ob)) = 1"
    by (simp only: fst_conv login_invocations_append status_no_login_invocations
          login_invocations_login add_0)
  with True show ?thesis by simp
next
  case False
  have eq: "authenticate_if_needed svc st loads ob =
          (fst (get_tailscale_status svc loads (status_run ob))
             @ [Log LOGINFO ''[Tailscale] Authentication needed but auto_login disabled'',
                Notification ''Tailscale Authentication Required''
                  ''Please run 'tailscale up' manually or check addon settings''
                  NOTIFICATION_INFO 10000],
           Inr ())"
    using False
    by (simp add: authenticate_snapshot [OF assms] show_auth_notification_def
          show_notification_def)
  have "login_invocations
          [Log LOGINFO ''[Tailscale] Authentication needed but auto_login disabled'',
           Notification ''Tailscale Authentication Required''
             ''Please run 'tailscale up' manually or check addon settings''
             NOTIFICATION_INFO 10000] = 0"
    by (simp add: login_invocations_def)
  then have "login_invocations (fst (authenticate_if_needed svc st loads ob)) = 0"
    by (simp only: eq fst_conv login_invocations_append status_no_login_invocations add_0)
  with eq False show ?thesis by simp
qed

theorem needs_login_gated_by_auto_login_witness:
  "login_invocations
     (fst (authenticate_if_needed sample_service no_settings sample_loads needs_login_obs)) = 0
   \<and> login_invocations
     (fst (authenticate_if_needed sample_service auto_login_only sample_loads needs_login_obs)) = 1"
proof -
  have off: "no_settings ''auto_login'' \<noteq> ''true''"
    by (simp add: no_settings_def)
  have on: "auto_login_only ''auto_login'' = ''true''"
    by (simp add: auto_login_only_def)
  note t1 = needs_login_gated_by_auto_login [OF sample_needs_login needs_login_state, of no_settings]
  note t2 = needs_login_gated_by_auto_login [OF sample_needs_login needs_login_state, of auto_login_only]
  have a: "login_invocations
     (fst (authenticate_if_needed sample_service no_settings sample_loads needs_login_obs)) = 0"
    by (rule t1 [THEN conjunct1, THEN mp, OF off, THEN conjunct2])
  have b: "login_invocations
     (fst (authenticate_if_needed sample_service auto_login_only sample_loads needs_login_obs)) = 1"
    by (rule t2 [THEN conjunct2, THEN mp, OF on])
  show ?thesis by (rule conjI [OF a b])
qed

section \<open>Stopping the daemon\<close>

lemma stop_tailscale_returns: "snd (stop_tailscale svc ob) = Inr ()"
  by (simp add: stop_tailscale_def stop_tailscale_try_def split: option.splits sum.splits prod.splits)

lemma stop_tailscale_no_process:
  "tailscaled_process svc = None \<Longrightarrow> stop_tailscale svc ob = ([], Inr ())"
  by (simp add: stop_tailscale_def stop_tailscale_try_def)

lemma stop_tailscale_live:
  assumes "tailscaled_process svc = Some p" and "stop_poll ob = None"
  shows "fst (stop_tailscale svc ob) =
           [Poll p, Terminate p]
           @ (case stop_terminate ob of
                Some e \<Rightarrow> []
              | None \<Rightarrow>
                  Wait p 10
                  # (case stop_wait ob of
                       Inl e \<Rightarrow> []
                     | Inr rc \<Rightarrow> [Log LOGINFO ''[Tailscale] tailscaled stopped'']))"
  using assms
  by (simp add: stop_tailscale_def stop_tailscale_try_def split: option.splits sum.splits)

lemma stop_tailscale_exited:
  assumes "tailscaled_process svc = Some p" and "stop_poll ob = Some rc"
  shows "fst (stop_tailscale svc ob) = [Poll p]"
  using assms
  by (simp add: stop_tailscale_def stop_tailscale_try_def)

lemma stop_tailscale_never_kills: "filter is_kill (fst (stop_tailscale svc ob)) = []"
  by (simp add: stop_tailscale_def stop_tailscale_try_def split: option.splits sum.splits)

text \<open>
  C4, as stated, fails: when the service owns a live child and \<open>wait(timeout=10)\<close> times
  out, \<open>stop_tailscale\<close> has sent \<open>terminate()\<close> and waited, and that is all: the bare
  \<open>except\<close> drops the \<open>TimeoutExpired\<close> and no kill is sent.
\<close>

theorem stop_timeout_sends_no_kill:
  "tailscaled_process owning_service = Some 4242
   \<and> stop_poll stop_times_out = None
   \<and> stop_wait stop_times_out = Inl ''Command timed out after 10 seconds''
   \<and> stop_tailscale owning_service stop_times_out
       = ([Poll 4242, Terminate 4242, Wait 4242 10], Inr ())
   \<and> Kill 4242 \<notin> set (fst (stop_tailscale owning_service stop_times_out))"
  by (simp add: owning_service_def stop_times_out_def stop_tailscale_def stop_tailscale_try_def)

text \<open>
  C4, amended. For every call of \<open>stop_tailscale\<close> with a live owned child, the stop
  polls the child, sends \<open>terminate()\<close> and, unless that raises, waits up to 10 seconds;
  it logs the stop only when the wait returns. A timeout of the wait is dropped: the stop
  never sends a kill, and it returns normally in every case.
\<close>

theorem stop_terminates_and_waits:
  assumes "tailscaled_process svc = Some p" and "stop_poll ob = None"
  shows "fst (stop_tailscale svc ob) =
           [Poll p, Terminate p]
           @ (case stop_terminate ob of
                Some e \<Rightarrow> []
              | None \<Rightarrow>
                  Wait p 10
                  # (case stop_wait ob of
                       Inl e \<Rightarrow> []
                     | Inr rc \<Rightarrow> [Log LOGINFO ''[Tailscale] tailscaled stopped'']))
         \<and> filter is_kill (fst (stop_tailscale svc ob)) = []
         \<and> snd (stop_tailscale svc ob) = Inr ()"
  using stop_tailscale_live [OF assms] stop_tailscale_never_kills [of svc ob]
        stop_tailscale_returns [of svc ob]
  by (simp only: simp_thms)

theorem stop_terminates_and_waits_witness:
  "fst (stop_tailscale owning_service stop_times_out) = [Poll 4242, Terminate 4242, Wait 4242 10]"
proof -
  have a: "tailscaled_process owning_service = Some 4242"
    by (simp add: owning_service_def)
  have b: "stop_poll stop_times_out = None"
    by (simp add: stop_times_out_def)
  have c: "stop_terminate stop_times_out = None"
    by (simp add: stop_times_out_def)
  have d: "stop_wait stop_times_out = Inl ''Command timed out after 10 seconds''"
    by (simp add: stop_times_out_def)
  show ?thesis
    using stop_terminates_and_waits [OF a b, THEN conjunct1] by (simp add: c d)
qed

text \<open>
  C7. \<open>stop_tailscale\<close> returns normally in every state of the handle and whatever the
  child does, so a second call in a row (the handle is not changed by the first) cannot
  fail either. When no process is owned it does nothing at all; when the owned child has
  already exited (as after a first stop) it only polls it.
\<close>

theorem stop_tailscale_idempotent:
  "snd (stop_tailscale svc ob1) = Inr ()
   \<and> snd (stop_tailscale svc ob2) = Inr ()
   \<and> (tailscaled_process svc = None \<longrightarrow> stop_tailscale svc ob1 = ([], Inr ()))
   \<and> (\<forall>p rc. tailscaled_process svc = Some p \<and> stop_poll ob2 = Some rc \<longrightarrow>
         stop_tailscale svc ob2 = ([Poll p], Inr ()))"
  using stop_tailscale_returns [of svc ob1] stop_tailscale_returns [of svc ob2]
  by (auto simp: stop_tailscale_no_process stop_tailscale_def stop_tailscale_try_def)

theorem stop_tailscale_idempotent_witness:
  "stop_tailscale sample_service stop_clean = ([], Inr ())
   \<and> snd (stop_tailscale owning_service stop_clean) = Inr ()
   \<and> stop_tailscale owning_service stop_already_gone = ([Poll 4242], Inr ())"
proof -
  have n: "tailscaled_process sample_service = None"
    by (simp add: sample_service_def)
  have o: "tailscaled_process owning_service = Some 4242 \<and> stop_poll stop_already_gone = Some 0"
    by (simp add: owning_service_def stop_already_gone_def)
  have a: "stop_tailscale sample_service stop_clean = ([], Inr ())"
    by (rule stop_tailscale_idempotent [of sample_service stop_clean stop_clean,
                 THEN conjunct2, THEN conjunct2, THEN conjunct1, THEN mp, OF n])
  have b: "snd (stop_tailscale owning_service stop_clean) = Inr ()"
    by (rule stop_tailscale_idempotent [of owning_service stop_clean stop_already_gone, THEN conjunct1])
  have c: "stop_tailscale owning_service stop_already_gone = ([Poll 4242], Inr ())"
    by (rule stop_tailscale_idempotent [of owning_service stop_clean stop_already_gone,
                 THEN conjunct2, THEN conjunct2, THEN conjunct2, THEN spec, THEN spec, THEN mp, OF o])
  from a b c show ?thesis by (simp only: simp_thms)
qed

section \<open>The monitoring loop\<close>

lemma spawns_append: "spawns (a @ b) = spawns a + spawns b"
  by (simp add: spawns_def)

lemma spawns_Cons: "spawns (e # es) = (if is_spawn e then 1 else 0) + spawns es"
  by (simp add: spawns_def)

lemma spawns_Nil: "spawns [] = 0"
  by (simp add: spawns_def)

lemma spawns_status: "spawns (fst (get_tailscale_status svc loads ob)) = 0"
  by (simp add: get_tailscale_status_cases spawns_def split: sum.splits)

lemma spawns_login: "spawns (fst (login svc st ob)) = 0"
  by (cases ob)
     (simp_all add: login_def login_try_def Let_def spawns_def show_notification_def
        show_auth_notification_def)

lemma spawns_authenticate: "spawns (fst (authenticate_if_needed svc st loads ob)) = 0"
proof -
  obtain e1 j where g: "get_tailscale_status svc loads (status_run ob) = (e1, Inr j)"
    using get_tailscale_status_returns by blast
  have e1: "spawns e1 = 0"
    using spawns_status [of svc loads "status_run ob"] by (simp add: g)
  show ?thesis
    by (simp add: authenticate_if_needed_def g e1 spawns_append spawns_Cons spawns_Nil
          spawns_login show_auth_notification_def show_notification_def
          split: sum.splits)
qed

lemma spawns_start:
  "spawns (fst (start_tailscaled svc st ob)) =
     (if snd (is_tailscaled_running (start_pgrep ob)) then 0 else 1)"
  by (simp add: start_tailscaled_def start_tailscaled_try_def is_tailscaled_running_def
        Let_def spawns_def split: sum.splits)

lemma loop_body_restart:
  assumes "\<not> wait_for_abort t"
    and "snd (is_tailscaled_running (tick_pgrep t)) = False"
  shows "loop_body svc st loads t =
           ([WaitForAbort 30, Run pgrep_cmd None,
             Log LOGWARNING ''[Tailscale] Daemon died, restarting'']
              @ fst (start_tailscaled svc st (tick_start t))
              @ [Sleep 3]
              @ fst (authenticate_if_needed
                       (fst (snd (start_tailscaled svc st (tick_start t)))) st loads (tick_auth t)),
            fst (snd (start_tailscaled svc st (tick_start t))),
            (case snd (authenticate_if_needed
                         (fst (snd (start_tailscaled svc st (tick_start t)))) st loads
                         (tick_auth t)) of
               Inl e \<Rightarrow> Raise e
             | Inr u \<Rightarrow> Continue))"
  using assms
  by (simp add: loop_body_def is_tailscaled_running_def split: prod.splits)

lemma start_dies_fails:
  "snd (snd (start_tailscaled svc st start_dies)) = False"
  by (simp add: start_tailscaled_def start_tailscaled_try_def is_tailscaled_running_def
        start_dies_def exit_with_def Let_def)

lemma authenticate_unreachable:
  "snd (authenticate_if_needed svc st loads unreachable_obs) = Inr ()"
  by (simp add: authenticate_if_needed_def get_tailscale_status_cases unreachable_obs_def
        exit_with_def)

lemma failed_restart_tick_fields:
  "\<not> abort_requested failed_restart_tick"
  "\<not> wait_for_abort failed_restart_tick"
  "snd (is_tailscaled_running (tick_pgrep failed_restart_tick)) = False"
  "tick_start failed_restart_tick = start_dies"
  "tick_auth failed_restart_tick = unreachable_obs"
  by (simp_all add: failed_restart_tick_def is_tailscaled_running_def exit_with_def)

lemma failed_restart_continues:
  "snd (snd (loop_body svc st loads failed_restart_tick)) = Continue"
  by (simp add: loop_body_restart [OF failed_restart_tick_fields(2,3)]
        failed_restart_tick_fields(4,5) authenticate_unreachable)

text \<open>
  C3, as stated, fails in its second half: on a poll tick where the daemon is gone and
  the restart fails (the spawned child has exited after the two seconds), the pass of the
  loop ends normally and the loop goes on polling.
\<close>

theorem failed_restart_keeps_polling:
  "snd (snd (start_tailscaled sample_service no_settings (tick_start failed_restart_tick))) = False
   \<and> snd (snd (loop_body sample_service no_settings sample_loads failed_restart_tick)) = Continue
   \<and> snd (snd (monitor_loop sample_service no_settings sample_loads [failed_restart_tick]))
       = Polling"
proof -
  have a: "snd (snd (start_tailscaled sample_service no_settings
                       (tick_start failed_restart_tick))) = False"
    by (simp only: failed_restart_tick_fields(4) start_dies_fails)
  have b: "snd (snd (loop_body sample_service no_settings sample_loads failed_restart_tick))
             = Continue"
    by (rule failed_restart_continues)
  obtain e svc' where l: "loop_body sample_service no_settings sample_loads failed_restart_tick
                            = (e, svc', Continue)"
    using b by (cases "loop_body sample_service no_settings sample_loads failed_restart_tick") auto
  have c: "snd (snd (monitor_loop sample_service no_settings sample_loads [failed_restart_tick]))
             = Polling"
    by (simp add: failed_restart_tick_fields(1) l)
  from a b c show ?thesis by (simp only: simp_thms)
qed

text \<open>
  C3, amended. On a poll tick where the daemon is found gone, the restart is followed by
  the three-second wait and the authentication step whether the restart succeeded or
  failed; the pass never breaks out of the loop, and unless the authentication step
  raises, the loop goes on with the next tick.
\<close>

theorem restart_then_authenticate:
  assumes "\<not> abort_requested t"
    and "\<not> wait_for_abort t"
    and "snd (is_tailscaled_running (tick_pgrep t)) = False"
  shows "fst (loop_body svc st loads t) =
           [WaitForAbort 30, Run pgrep_cmd None,
            Log LOGWARNING ''[Tailscale] Daemon died, restarting'']
             @ fst (start_tailscaled svc st (tick_start t))
             @ [Sleep 3]
             @ fst (authenticate_if_needed
                      (fst (snd (start_tailscaled svc st (tick_start t)))) st loads (tick_auth t))
         \<and> snd (snd (loop_body svc st loads t)) =
             (case snd (authenticate_if_needed
                          (fst (snd (start_tailscaled svc st (tick_start t)))) st loads
                          (tick_auth t)) of
                Inl e \<Rightarrow> Raise e
              | Inr u \<Rightarrow> Continue)
         \<and> snd (snd (loop_body svc st loads t)) \<noteq> Break
         \<and> (snd (snd (loop_body svc st loads t)) = Continue \<longrightarrow>
              monitor_loop svc st loads (t # ts) =
                (AbortRequested # fst (loop_body svc st loads t)
                   @ fst (monitor_loop (fst (snd (loop_body svc st loads t))) st loads ts),
                 snd (monitor_loop (fst (snd (loop_body svc st loads t))) st loads ts)))"
proof -
  note lb = loop_body_restart [OF assms(2,3), of svc st loads]
  have a: "fst (loop_body svc st loads t) =
           [WaitForAbort 30, Run pgrep_cmd None,
            Log LOGWARNING ''[Tailscale] Daemon died, restarting'']
             @ fst (start_tailscaled svc st (tick_start t))
             @ [Sleep 3]
             @ fst (authenticate_if_needed
                      (fst (snd (start_tailscaled svc st (tick_start t)))) st loads (tick_auth t))"
    by (simp only: lb fst_conv)
  have f: "snd (snd (loop_body svc st loads t)) =
             (case snd (authenticate_if_needed
                          (fst (snd (start_tailscaled svc st (tick_start t)))) st loads
                          (tick_auth t)) of
                Inl e \<Rightarrow> Raise e
              | Inr u \<Rightarrow> Continue)"
    by (simp only: lb snd_conv)
  have b: "snd (snd (loop_body svc st loads t)) \<noteq> Break"
    by (simp add: lb split: sum.splits)
  have c: "monitor_loop svc st loads (t # ts) =
                (AbortRequested # fst (loop_body svc st loads t)
                   @ fst (monitor_loop (fst (snd (loop_body svc st loads t))) st loads ts),
                 snd (monitor_loop (fst (snd (loop_body svc st loads t))) st loads ts))"
    if k: "snd (snd (loop_body svc st loads t)) = Continue"
  proof -
    obtain e svc' where l: "loop_body svc st loads t = (e, svc', Continue)"
      using k by (cases "loop_body svc st loads t") auto
    show ?thesis
      using assms(1) by (simp add: l split: prod.splits)
  qed
  show ?thesis
    by (intro conjI impI; (rule a f b | (rule c, assumption)))
qed

theorem restart_then_authenticate_witness:
  "snd (snd (loop_body sample_service no_settings sample_loads failed_restart_tick)) \<noteq> Break"
  by (rule restart_then_authenticate
             [OF failed_restart_tick_fields(1,2,3), THEN conjunct2, THEN conjunct2,
              THEN conjunct1])

lemma liveness_checks_append:
  "liveness_checks (a @ b) = liveness_checks a + liveness_checks b"
  by (simp add: liveness_checks_def)

lemma liveness_checks_status: "liveness_checks (fst (get_tailscale_status svc loads ob)) = 0"
  by (simp add: get_tailscale_status_cases liveness_checks_def split: sum.splits)

lemma liveness_checks_login: "liveness_checks (fst (login svc st ob)) = 0"
  by (cases ob)
     (simp_all add: login_def login_try_def Let_def liveness_checks_def show_notification_def
        show_auth_notification_def)

lemma liveness_checks_authenticate:
  "liveness_checks (fst (authenticate_if_needed svc st loads ob)) = 0"
proof -
  obtain e1 j where g: "get_tailscale_status svc loads (status_run ob) = (e1, Inr j)"
    using get_tailscale_status_returns by blast
  have e1: "liveness_checks e1 = 0"
    using liveness_checks_status [of svc loads "status_run ob"] by (simp add: g)
  have n: "liveness_checks [] = 0"
    by (simp add: liveness_checks_def)
  have w: "liveness_checks
             [Log LOGWARNING ''[Tailscale] Cannot get status, daemon may not be running''] = 0"
    by (simp add: liveness_checks_def)
  have m: "liveness_checks
             (Log LOGINFO ''[Tailscale] Authentication needed but auto_login disabled''
                # show_auth_notification) = 0"
    by (simp add: liveness_checks_def show_auth_notification_def show_notification_def)
  show ?thesis
    by (simp add: authenticate_if_needed_def g e1 n w m liveness_checks_append
          liveness_checks_login split: sum.splits)
qed

lemma liveness_checks_start: "liveness_checks (fst (start_tailscaled svc st ob)) = 1"
  by (simp add: start_tailscaled_def start_tailscaled_try_def is_tailscaled_running_def
        Let_def liveness_checks_def split: sum.splits)

text \<open>
  C8. On a poll tick that is not cut short by an abort and whose liveness check finds the
  daemon gone, the tick logs that the daemon died and runs \<open>start_tailscaled\<close> exactly
  once: its trace is the liveness check, the warning, the trace of one
  \<open>start_tailscaled\<close>, the three-second wait and the authentication step. It holds two
  liveness checks (the loop's, and the one check every \<open>start_tailscaled\<close> makes) and
  never more than one spawn of the daemon; the spawn count is exactly one when
  \<open>start_tailscaled\<close>'s own check still finds the daemon absent, as after an external
  kill.
\<close>

theorem restart_runs_start_once:
  assumes "\<not> wait_for_abort t"
    and "snd (is_tailscaled_running (tick_pgrep t)) = False"
  shows "fst (loop_body svc st loads t) =
           [WaitForAbort 30, Run pgrep_cmd None,
            Log LOGWARNING ''[Tailscale] Daemon died, restarting'']
             @ fst (start_tailscaled svc st (tick_start t))
             @ [Sleep 3]
             @ fst (authenticate_if_needed
                      (fst (snd (start_tailscaled svc st (tick_start t)))) st loads (tick_auth t))
         \<and> liveness_checks (fst (loop_body svc st loads t)) = 2
         \<and> spawns (fst (loop_body svc st loads t)) =
             (if snd (is_tailscaled_running (start_pgrep (tick_start t))) then 0 else 1)
         \<and> spawns (fst (loop_body svc st loads t)) \<le> 1"
proof -
  note lb = loop_body_restart [OF assms, of svc st loads]
  have a: "fst (loop_body svc st loads t) =
           [WaitForAbort 30, Run pgrep_cmd None,
            Log LOGWARNING ''[Tailscale] Daemon died, restarting'']
             @ fst (start_tailscaled svc st (tick_start t))
             @ [Sleep 3]
             @ fst (authenticate_if_needed
                      (fst (snd (start_tailscaled svc st (tick_start t)))) st loads (tick_auth t))"
    by (simp only: lb fst_conv)
  have p: "liveness_checks [WaitForAbort 30, Run pgrep_cmd None,
             Log LOGWARNING ''[Tailscale] Daemon died, restarting''] = 1"
    by (simp add: liveness_checks_def)
  have q: "liveness_checks [Sleep 3] = 0"
    by (simp add: liveness_checks_def)
  have b: "liveness_checks (fst (loop_body svc st loads t)) = 2"
    by (simp only: a liveness_checks_append p q liveness_checks_start
          liveness_checks_authenticate)
  have p': "spawns [WaitForAbort 30, Run pgrep_cmd None,
              Log LOGWARNING ''[Tailscale] Daemon died, restarting''] = 0"
    by (simp add: spawns_def)
  have q': "spawns [Sleep 3] = 0"
    by (simp add: spawns_def)
  have c: "spawns (fst (loop_body svc st loads t)) =
             (if snd (is_tailscaled_running (start_pgrep (tick_start t))) then 0 else 1)"
    by (simp only: a spawns_append p' q' spawns_start spawns_authenticate)
  have d: "spawns (fst (loop_body svc st loads t)) \<le> 1"
    by (simp add: c)
  from a b c d show ?thesis by (simp only: simp_thms)
qed

lemma restart_tick_fields:
  "\<not> wait_for_abort restart_tick"
  "snd (is_tailscaled_running (tick_pgrep restart_tick)) = False"
  "snd (is_tailscaled_running (start_pgrep (tick_start restart_tick))) = False"
  by (simp_all add: restart_tick_def start_ok_def is_tailscaled_running_def exit_with_def)

theorem restart_runs_start_once_witness:
  "spawns (fst (loop_body sample_service no_settings sample_loads restart_tick)) = 1
   \<and> liveness_checks (fst (loop_body sample_service no_settings sample_loads restart_tick)) = 2"
proof -
  note t = restart_runs_start_once [OF restart_tick_fields(1,2), of sample_service no_settings sample_loads]
  have a: "spawns (fst (loop_body sample_service no_settings sample_loads restart_tick)) = 1"
    using t [THEN conjunct2, THEN conjunct2, THEN conjunct1]
    by (simp add: restart_tick_fields(3))
  have b: "liveness_checks
             (fst (loop_body sample_service no_settings sample_loads restart_tick)) = 2"
    by (rule t [THEN conjunct2, THEN conjunct1])
  from a b show ?thesis by (simp only: simp_thms)
qed

section \<open>The saved wizard configuration\<close>

lemma safe_config_ignores_secrets:
  "safe_config (cfg\<lparr>jellyfin_password := p, tailscale_authkey := k\<rparr>) date = safe_config cfg date"
  by (simp add: safe_config_def)

lemma save_config_cases:
  "save_config cfg date ob =
     (case save_open_raises ob of
        Some e \<Rightarrow> ([OpenWrite config_file, Log LOGERROR (''Error saving config: '' @ e)], False)
      | None \<Rightarrow>
          (case save_dump_raises ob of
             Some e \<Rightarrow>
               ([OpenWrite config_file, DumpJson config_file (JObj (safe_config cfg date)) 2,
                 Log LOGERROR (''Error saving config: '' @ e)], False)
           | None \<Rightarrow>
               ([OpenWrite config_file, DumpJson config_file (JObj (safe_config cfg date)) 2],
                True)))"
  by (simp add: save_config_def save_config_try_def split: option.splits)

text \<open>
  C10. The dict that \<open>save_config\<close> dumps into \<open>raven-config.json\<close> has exactly the keys
  \<open>jellyfin_server\<close>, \<open>jellyfin_username\<close>, \<open>device_hostname\<close>, \<open>setup_completed\<close> and
  \<open>setup_date\<close>, with the three configured strings, \<open>True\<close> and the date as values;
  \<open>jellyfin_password\<close> and \<open>tailscale_authkey\<close> are not among its keys. The only dump
  into the file is that dict, and nothing \<open>save_config\<close> does depends on the password or
  on the auth key: whatever they are changed to, trace and result are the same.
\<close>

theorem saved_config_omits_secrets:
  "map fst (safe_config cfg date) =
     [''jellyfin_server'', ''jellyfin_username'', ''device_hostname'', ''setup_completed'',
      ''setup_date'']
   \<and> map snd (safe_config cfg date) =
     [JStr (jellyfin_server cfg), JStr (jellyfin_username cfg), JStr (device_hostname cfg),
      JBool True, JStr date]
   \<and> ''jellyfin_password'' \<notin> fst ` set (safe_config cfg date)
   \<and> ''tailscale_authkey'' \<notin> fst ` set (safe_config cfg date)
   \<and> filter is_dump (fst (save_config cfg date ob)) =
       (if save_open_raises ob = None
        then [DumpJson config_file (JObj (safe_config cfg date)) 2] else [])
   \<and> save_config (cfg\<lparr>jellyfin_password := p, tailscale_authkey := k\<rparr>) date ob
       = save_config cfg date ob"
proof -
  have a: "map fst (safe_config cfg date) =
     [''jellyfin_server'', ''jellyfin_username'', ''device_hostname'', ''setup_completed'',
      ''setup_date'']"
    by (simp add: safe_config_def)
  have b: "map snd (safe_config cfg date) =
     [JStr (jellyfin_server cfg), JStr (jellyfin_username cfg), JStr (device_hostname cfg),
      JBool True, JStr date]"
    by (simp add: safe_config_def)
  have c: "''jellyfin_password'' \<notin> fst ` set (safe_config cfg date)"
    by (simp add: safe_config_def)
  have d: "''tailscale_authkey'' \<notin> fst ` set (safe_config cfg date)"
    by (simp add: safe_config_def)
  have e: "filter is_dump (fst (save_config cfg date ob)) =
       (if save_open_raises ob = None
        then [DumpJson config_file (JObj (safe_config cfg date)) 2] else [])"
    by (simp add: save_config_cases split: option.splits)
  have f: "save_config (cfg\<lparr>jellyfin_password := p, tailscale_authkey := k\<rparr>) date ob
       = save_config cfg date ob"
    by (simp only: save_config_cases safe_config_ignores_secrets)
  show ?thesis
    by (intro conjI; rule a b c d e f)
qed

section \<open>The auth key in the logs\<close>

text \<open>
  \<open>login\<close> of the service add-on leaves every argument that starts with \<open>tskey-\<close> out of
  the command it logs.
\<close>

lemma login_logged_cmd_drops_key:
  "\<not> prefix ''tskey-'' b \<Longrightarrow> \<not> prefix ''tskey-'' s \<Longrightarrow>
   login_logged_cmd [b, s, ''up'', ''--authkey'', ''tskey-abc123''] =
     py_join '' '' [b, s, ''up'', ''--authkey'']"
  by (simp add: login_logged_cmd_def)

lemma py_join_Cons:
  "py_join sep (x # xs) = x @ (case xs of [] \<Rightarrow> [] | y # ys \<Rightarrow> sep @ py_join sep xs)"
  by (cases xs) simp_all

lemma up_cmd_parts_shape:
  "\<exists>rest. up_cmd_parts cfg =
     ''/storage/.kodi/addons/service.tailscale/bin/tailscale'' # ''up''
       # (''--authkey='' @ py_strip (cs_authkey cfg)) # rest"
  by (simp add: up_cmd_parts_def)

lemma up_cmd_contains_key:
  "sublist (py_strip (cs_authkey cfg)) (py_join '' '' (up_cmd_parts cfg))"
proof -
  obtain rest where r: "up_cmd_parts cfg =
     ''/storage/.kodi/addons/service.tailscale/bin/tailscale'' # ''up''
       # (''--authkey='' @ py_strip (cs_authkey cfg)) # rest"
    using up_cmd_parts_shape by blast
  define pre where "pre = ''/storage/.kodi/addons/service.tailscale/bin/tailscale'' @ '' ''
                            @ ''up'' @ '' '' @ ''--authkey=''"
  define suf where "suf = (case rest of [] \<Rightarrow> [] | y # ys \<Rightarrow> '' '' @ py_join '' '' rest)"
  have "py_join '' '' (up_cmd_parts cfg) = pre @ py_strip (cs_authkey cfg) @ suf"
    unfolding r pre_def suf_def by (simp add: py_join_Cons)
  then show ?thesis
    by (simp only: sublist_appendI)
qed

lemma apply_settings_logs_command:
  assumes "cs_enabled cfg" and "py_strip (cs_authkey cfg) \<noteq> []"
    and "open_raises ob = None" and "write_raises ob = None" and "chmod_raises ob = None"
  shows "config_log (''Running: '' @ py_join '' '' (up_cmd_parts cfg))
           \<in> set (fst (apply_settings cfg ob))"
  using assms
  by (simp add: apply_settings_def enable_tailscale_def Let_def split: prod.splits)

lemma sample_config_key: "py_strip (cs_authkey sample_config) = ''tskey-abc123''"
  by (simp add: sample_config_def py_strip_def py_isspace_def)

lemma py_strip_Nil: "py_strip [] = []"
  by (simp add: py_strip_def)

lemma sample_up_command:
  "py_join '' '' (up_cmd_parts sample_config) =
     ''/storage/.kodi/addons/service.tailscale/bin/tailscale up --authkey=tskey-abc123''"
  by (simp add: up_cmd_parts_def sample_config_key) (simp add: sample_config_def py_strip_Nil)

text \<open>
  C1. The configuration service breaks the claim: with the service enabled and the auth
  key \<open>tskey-abc123\<close>, \<open>apply_settings\<close> logs the whole \<open>tailscale up\<close> command line,
  and the logged line contains the key.
\<close>

theorem apply_settings_logs_authkey:
  "Log LOGINFO
     ''[Tailscale Config] Running: /storage/.kodi/addons/service.tailscale/bin/tailscale up --authkey=tskey-abc123''
     \<in> set (fst (apply_settings sample_config sample_apply_obs))
   \<and> sublist ''tskey-abc123''
        ''[Tailscale Config] Running: /storage/.kodi/addons/service.tailscale/bin/tailscale up --authkey=tskey-abc123''"
proof -
  have en: "cs_enabled sample_config"
    by (simp add: sample_config_def)
  have key: "py_strip (cs_authkey sample_config) \<noteq> []"
    by (simp add: sample_config_key)
  have ob: "open_raises sample_apply_obs = None" "write_raises sample_apply_obs = None"
    "chmod_raises sample_apply_obs = None"
    by (simp_all add: sample_apply_obs_def)
  have a: "Log LOGINFO
     ''[Tailscale Config] Running: /storage/.kodi/addons/service.tailscale/bin/tailscale up --authkey=tskey-abc123''
     \<in> set (fst (apply_settings sample_config sample_apply_obs))"
    using apply_settings_logs_command [OF en key ob]
    by (simp add: sample_up_command config_log_def)
  have "sublist ''tskey-abc123''
          (''[Tailscale Config] Running: /storage/.kodi/addons/service.tailscale/bin/tailscale up --authkey=''
             @ ''tskey-abc123'')"
    by (rule sublist_append_leftI)
  then have b: "sublist ''tskey-abc123''
        ''[Tailscale Config] Running: /storage/.kodi/addons/service.tailscale/bin/tailscale up --authkey=tskey-abc123''"
    by simp
  show ?thesis
    by (intro conjI; rule a b)
qed

end
